theory Spec2Isabelle
  imports Main
begin

section \<open>JavaScript values\<close>

text \<open>
  The values a handler of \<^verbatim>\<open>server.js\<close> sees: what \<^verbatim>\<open>bodyParser.json()\<close> puts into
  \<^verbatim>\<open>req.body\<close>, what the database driver returns in a row, and \<^verbatim>\<open>undefined\<close> for a
  property that is absent. Numbers are integers here; only their being zero or not is
  ever inspected.
\<close>

datatype jsval =
    JUndefined
  | JNull
  | JBool bool
  | JNum int
  | JStr string
  | JArr "jsval list"
  | JObj "(string \<times> jsval) list"

datatype js_error = TypeError | ReferenceError | DatabaseError | FileTypeError | BcryptError

text \<open>\<^verbatim>\<open>!v\<close>: the falsy values are undefined, null, false, 0 and the empty string.\<close>

fun falsy :: "jsval \<Rightarrow> bool" where
  "falsy JUndefined = True"
| "falsy JNull = True"
| "falsy (JBool b) = (b = False)"
| "falsy (JNum n) = (n = 0)"
| "falsy (JStr s) = (s = [])"
| "falsy (JArr xs) = False"
| "falsy (JObj fs) = False"

text \<open>\<^verbatim>\<open>a || b\<close>\<close>

definition js_or :: "jsval \<Rightarrow> jsval \<Rightarrow> jsval" where
  "js_or a b = (if falsy a then b else a)"

text \<open>Reading a property of an object given by its property list; absent is undefined.\<close>

definition get_prop :: "(string \<times> jsval) list \<Rightarrow> string \<Rightarrow> jsval" where
  "get_prop fs k = (case map_of fs k of None \<Rightarrow> JUndefined | Some v \<Rightarrow> v)"

text \<open>
  \<^verbatim>\<open>v.k\<close> for a value of any kind: reading a property of undefined or null throws a
  TypeError; a primitive or an array has no property of the names read in this file
  (\<^verbatim>\<open>subject\<close>, \<^verbatim>\<open>grade\<close>), so the read gives undefined.
\<close>

fun read_member :: "jsval \<Rightarrow> string \<Rightarrow> js_error + jsval" where
  "read_member JUndefined k = Inl TypeError"
| "read_member JNull k = Inl TypeError"
| "read_member (JObj fs) k = Inr (get_prop fs k)"
| "read_member v k = Inr JUndefined"

text \<open>
  \<^verbatim>\<open>xs[i] = v\<close> on a JavaScript array: inside the array the slot is overwritten, at or
  past its length the array grows to length \<^verbatim>\<open>i + 1\<close> (the slots in between are holes,
  which read as undefined).
\<close>

definition js_set :: "jsval list \<Rightarrow> nat \<Rightarrow> jsval \<Rightarrow> jsval list" where
  "js_set xs i v =
     (if i < length xs then xs[i := v]
      else xs @ replicate (i - length xs) JUndefined @ [v])"

section \<open>The upload filter (lines 22-32)\<close>

record upload_part =
  mimetype :: string
  originalname :: string

text \<open>
  \<^verbatim>\<open>/jpeg|jpg|png|gif/.test(s)\<close>: the pattern has no anchors, so the test succeeds when
  one of the four words occurs anywhere in \<^verbatim>\<open>s\<close>.
\<close>

fun starts_with :: "string \<Rightarrow> string \<Rightarrow> bool" where
  "starts_with [] s = True"
| "starts_with (p # ps) [] = False"
| "starts_with (p # ps) (c # cs) = (p = c \<and> starts_with ps cs)"

fun occurs_in :: "string \<Rightarrow> string \<Rightarrow> bool" where
  "occurs_in p [] = starts_with p []"
| "occurs_in p (c # cs) = (starts_with p (c # cs) \<or> occurs_in p cs)"

definition filetypes_test :: "string \<Rightarrow> bool" where
  "filetypes_test s =
     (occurs_in ''jpeg'' s \<or> occurs_in ''jpg'' s \<or> occurs_in ''png'' s \<or> occurs_in ''gif'' s)"

text \<open>The filter's callback: \<^verbatim>\<open>cb(null, true)\<close> is \<open>Inr True\<close>, \<^verbatim>\<open>cb(new Error(...))\<close> is \<open>Inl\<close>.\<close>

definition fileFilter :: "upload_part \<Rightarrow> js_error + bool" where
  "fileFilter f = (if filetypes_test (mimetype f) then Inr True else Inl FileTypeError)"

section \<open>The database behind \<^verbatim>\<open>query\<close> (lines 33-51)\<close>

text \<open>
  \<^verbatim>\<open>query\<close> is the driver's \<^verbatim>\<open>db.query\<close>, promisified: it sends one statement with its
  parameters to the MySQL server and resolves with the result or rejects with the
  server's error. The statements of the handlers are three shapes of SQL, kept here as
  data: the table, the column list and the \<^verbatim>\<open>VALUES\<close> list of an \<^verbatim>\<open>INSERT\<close>, and the
  column compared with the one \<^verbatim>\<open>?\<close> of a \<^verbatim>\<open>SELECT * ... WHERE\<close> or a \<^verbatim>\<open>DELETE ... WHERE\<close>.
\<close>

type_synonym row = "(string \<times> jsval) list"

record table =
  rows :: "row list"
  next_id :: nat

datatype tname = Users | Institutions | Applications | Admissions

datatype sqlexp = Placeholder | Literal jsval

datatype stmt =
    Insert tname "string list" "sqlexp list"
  | SelectWhere tname string
  | DeleteWhere tname string

datatype qresult = Rows "row list" | OkPacket nat nat

text \<open>
  The environment of a request: the four tables the handlers touch, the files written
  under \<^verbatim>\<open>uploads/\<close>, and two things the source leaves to the server. \<open>faults\<close> says
  which of the coming statements the server fails (one flag per statement, in order; when
  the list is used up no statement fails): a lost connection, a constraint of the schema,
  anything that makes \<^verbatim>\<open>query\<close> reject. \<open>sql_eq\<close> is the server's comparison \<^verbatim>\<open>column = ?\<close>
  (its collation and its conversion between strings and numbers), first argument the
  stored cell, second the parameter.
\<close>

record env =
  users :: table
  institutions :: table
  applications :: table
  admissions :: table
  disk :: "string list"
  faults :: "bool list"
  sql_eq :: "jsval \<Rightarrow> jsval \<Rightarrow> bool"

fun get_table :: "tname \<Rightarrow> env \<Rightarrow> table" where
  "get_table Users e = users e"
| "get_table Institutions e = institutions e"
| "get_table Applications e = applications e"
| "get_table Admissions e = admissions e"

fun put_table :: "tname \<Rightarrow> table \<Rightarrow> env \<Rightarrow> env" where
  "put_table Users t e = e\<lparr>users := t\<rparr>"
| "put_table Institutions t e = e\<lparr>institutions := t\<rparr>"
| "put_table Applications t e = e\<lparr>applications := t\<rparr>"
| "put_table Admissions t e = e\<lparr>admissions := t\<rparr>"

text \<open>The driver writes undefined as \<^verbatim>\<open>NULL\<close>, as it does null.\<close>

fun sql_escape :: "jsval \<Rightarrow> jsval" where
  "sql_escape JUndefined = JNull"
| "sql_escape v = v"

text \<open>
  A parameter is taken to be a scalar. The driver writes an array as a list of values and
  an object as assignments, which changes the statement itself; that is not modelled, and
  the theorems about a statement whose parameter comes from the request assume \<open>scalar\<close>.
\<close>

fun scalar :: "jsval \<Rightarrow> bool" where
  "scalar (JArr xs) = False"
| "scalar (JObj fs) = False"
| "scalar v = True"

text \<open>
  The driver replaces the \<^verbatim>\<open>?\<close> of the statement from left to right by the parameters in
  order. Parameters left over are ignored; a \<^verbatim>\<open>?\<close> left over stays in the text the
  server gets, which it refuses.
\<close>

fun bind :: "sqlexp list \<Rightarrow> jsval list \<Rightarrow> jsval list option" where
  "bind [] ps = Some []"
| "bind (Literal v # es) ps = map_option ((#) v) (bind es ps)"
| "bind (Placeholder # es) [] = None"
| "bind (Placeholder # es) (p # ps) = map_option ((#) (sql_escape p)) (bind es ps)"

text \<open>
  What the server does with a statement it does not fail. An \<^verbatim>\<open>INSERT\<close> whose \<^verbatim>\<open>VALUES\<close>
  list is not as long as its column list is refused (MySQL error 1136); otherwise the
  i-th value goes to the i-th column and the row gets the table's next
  \<^verbatim>\<open>AUTO_INCREMENT\<close> id, returned as \<^verbatim>\<open>insertId\<close>. A \<^verbatim>\<open>DELETE\<close> reports the number of rows
  removed as \<^verbatim>\<open>affectedRows\<close>.
\<close>

fun run :: "stmt \<Rightarrow> jsval list \<Rightarrow> env \<Rightarrow> (js_error + qresult) \<times> env" where
  "run (Insert t cols vals) ps e =
     (case bind vals ps of
        None \<Rightarrow> (Inl DatabaseError, e)
      | Some vs \<Rightarrow>
          if length vs = length cols then
            (let tb = get_table t e;
                 r = (''id'', JNum (int (next_id tb))) # zip cols vs
             in (Inr (OkPacket (next_id tb) 1),
                 put_table t (tb\<lparr>rows := rows tb @ [r], next_id := Suc (next_id tb)\<rparr>) e))
          else (Inl DatabaseError, e))"
| "run (SelectWhere t c) ps e =
     (case ps of
        [] \<Rightarrow> (Inl DatabaseError, e)
      | p # ps' \<Rightarrow>
          (Inr (Rows (filter (\<lambda>r. sql_eq e (get_prop r c) (sql_escape p)) (rows (get_table t e)))),
           e))"
| "run (DeleteWhere t c) ps e =
     (case ps of
        [] \<Rightarrow> (Inl DatabaseError, e)
      | p # ps' \<Rightarrow>
          (let tb = get_table t e;
               gone = filter (\<lambda>r. sql_eq e (get_prop r c) (sql_escape p)) (rows tb);
               kept = filter (\<lambda>r. \<not> sql_eq e (get_prop r c) (sql_escape p)) (rows tb)
           in (Inr (OkPacket 0 (length gone)), put_table t (tb\<lparr>rows := kept\<rparr>) e)))"

definition query :: "stmt \<Rightarrow> jsval list \<Rightarrow> env \<Rightarrow> (js_error + qresult) \<times> env" where
  "query s ps e =
     (case faults e of
        [] \<Rightarrow> run s ps e
      | f # fs \<Rightarrow>
          if f then (Inl DatabaseError, e\<lparr>faults := fs\<rparr>) else run s ps (e\<lparr>faults := fs\<rparr>))"

text \<open>What a handler reads off a result: \<^verbatim>\<open>result.length\<close> rows, \<^verbatim>\<open>affectedRows\<close>, \<^verbatim>\<open>insertId\<close>.\<close>

fun result_rows :: "qresult \<Rightarrow> row list" where
  "result_rows (Rows rs) = rs"
| "result_rows (OkPacket i n) = []"

fun affectedRows :: "qresult \<Rightarrow> nat" where
  "affectedRows (OkPacket i n) = n"
| "affectedRows (Rows rs) = 0"

fun insertId :: "qresult \<Rightarrow> jsval" where
  "insertId (OkPacket i n) = JNum (int i)"
| "insertId (Rows rs) = JUndefined"

section \<open>Requests, responses and the upload middleware\<close>

text \<open>
  A request as a handler reads it: \<^verbatim>\<open>req.body\<close> (the JSON object, or the text fields of
  a multipart form), \<^verbatim>\<open>req.params\<close>, and the file part of a multipart form if there is
  one. \<open>now\<close> is what \<^verbatim>\<open>Date.now()\<close> returns while the request is served and \<open>salt\<close>
  the salt \<^verbatim>\<open>bcrypt.hash\<close> draws for it.
\<close>

record request =
  body :: "(string \<times> jsval) list"
  params :: "(string \<times> jsval) list"
  part :: "upload_part option"
  now :: nat
  salt :: string

text \<open>
  What becomes of a request in a handler: it sends a response (status and JSON body), or
  an error leaves the handler uncaught (the promise of the \<^verbatim>\<open>async\<close> function rejects,
  or the middleware before it calls back with an error) and the handler sends nothing.
\<close>

datatype outcome = Response nat jsval | Escaped js_error

text \<open>A number in decimal, as the template string of line 18 writes \<^verbatim>\<open>Date.now()\<close>.\<close>

fun digits :: "nat \<Rightarrow> string" where
  "digits n =
     (if n < 10 then [''0123456789'' ! n]
      else digits (n div 10) @ [''0123456789'' ! (n mod 10)])"

declare digits.simps [simp del]

text \<open>
  \<^verbatim>\<open>upload.single(field)\<close> (lines 13-32): with no file part \<^verbatim>\<open>req.file\<close> stays undefined;
  a part the filter accepts is written to \<^verbatim>\<open>uploads/<Date.now()>_<originalname>\<close> and
  \<^verbatim>\<open>req.file.path\<close> is that path; a part the filter refuses ends the request with the
  filter's error before anything is written.
\<close>

definition upload_single :: "request \<Rightarrow> env \<Rightarrow> js_error + (jsval \<times> env)" where
  "upload_single req e =
     (case part req of
        None \<Rightarrow> Inr (JUndefined, e)
      | Some f \<Rightarrow>
          (case fileFilter f of
             Inl err \<Rightarrow> Inl err
           | Inr ok \<Rightarrow>
               (let path = ''uploads/'' @ digits (now req) @ ''_'' @ originalname f
                in Inr (JObj [(''path'', JStr path)], e\<lparr>disk := disk e @ [path]\<rparr>))))"

definition err_body :: "string \<Rightarrow> jsval" where
  "err_body m = JObj [(''error'', JStr m)]"

definition msg_body :: "string \<Rightarrow> jsval" where
  "msg_body m = JObj [(''message'', JStr m)]"

section \<open>Registration and login (lines 84-139)\<close>

text \<open>
  The \<^verbatim>\<open>bcrypt\<close> package is not part of the repository. What is modelled of it is the
  shape of its hash string and how the comparison reads it; the key derivation itself is a
  parameter, \<open>digest lib cost salt key\<close>. \<^verbatim>\<open>bcrypt.hash(data, rounds)\<close>, when the salt
  drawn is \<open>salt\<close> (22 characters), is the header \<^verbatim>\<open>$2b$\<close>, the cost in two digits, \<^verbatim>\<open>$\<close>,
  the salt, and the digest of the first 72 bytes of the data: bcrypt reads no more of it.
  \<^verbatim>\<open>bcrypt.compare(data, encrypted)\<close> takes the cost and the salt out of \<open>encrypted\<close>,
  hashes the data with them, and accepts when the result is \<open>encrypted\<close>. Both reject an
  argument that is not a string, which the handlers below write out.
\<close>

record bcrypt =
  digest :: "string \<Rightarrow> string \<Rightarrow> string \<Rightarrow> string"

definition cost_text :: "nat \<Rightarrow> string" where
  "cost_text rounds = (if rounds < 10 then ''0'' @ digits rounds else digits rounds)"

definition bhash :: "bcrypt \<Rightarrow> string \<Rightarrow> nat \<Rightarrow> string \<Rightarrow> string" where
  "bhash lib data rounds s =
     ''$2b$'' @ cost_text rounds @ ''$'' @ s @ digest lib (cost_text rounds) s (take 72 data)"

definition bcompare :: "bcrypt \<Rightarrow> string \<Rightarrow> string \<Rightarrow> bool" where
  "bcompare lib data encrypted =
     (let cost = take 2 (drop 4 encrypted); s = take 22 (drop 7 encrypted)
      in ''$2b$'' @ cost @ ''$'' @ s @ digest lib cost s (take 72 data) = encrypted)"

definition post_register :: "bcrypt \<Rightarrow> request \<Rightarrow> env \<Rightarrow> outcome \<times> env" where
  "post_register lib req e0 =
     (case upload_single req e0 of
        Inl err \<Rightarrow> (Escaped err, e0)
      | Inr (file, e) \<Rightarrow>
          (let name = get_prop (body req) ''name'';
               email = get_prop (body req) ''email'';
               password = get_prop (body req) ''password'';
               user_type = get_prop (body req) ''user_type''
           in if falsy name \<or> falsy email \<or> falsy password \<or> falsy user_type \<or> falsy file then
                (Response 400
                   (err_body ''Please provide name, email, password, user_type, and a profile picture.''), e)
              else
                (case password of
                   JStr pw \<Rightarrow>
                     (let hashedPassword = JStr (bhash lib pw 10 (salt req)) in
                      case query
                             (Insert Users
                                [''name'', ''email'', ''password'', ''user_type'', ''profile_picture'']
                                (replicate 5 Placeholder))
                             [name, email, hashedPassword, user_type,
                              (case file of JObj fs \<Rightarrow> get_prop fs ''path'' | _ \<Rightarrow> JUndefined)] e of
                        (Inr result, e') \<Rightarrow> (Response 201 (msg_body ''User registered successfully.''), e')
                      | (Inl err, e') \<Rightarrow>
                          (Response 500 (err_body ''Database error during registration.''), e'))
                 | _ \<Rightarrow> (Escaped BcryptError, e))))"

definition post_login :: "bcrypt \<Rightarrow> request \<Rightarrow> env \<Rightarrow> outcome \<times> env" where
  "post_login lib req e =
     (let email = get_prop (body req) ''email'';
          password = get_prop (body req) ''password''
      in if falsy email \<or> falsy password then
           (Response 400 (err_body ''Please provide both email and password.''), e)
         else
           (case query (SelectWhere Users ''email'') [email] e of
              (Inl err, e') \<Rightarrow> (Response 500 (err_body ''Database query error.''), e')
            | (Inr data, e') \<Rightarrow>
                (case result_rows data of
                   [] \<Rightarrow> (Response 401 (err_body ''Invalid email or password.''), e')
                 | user # others \<Rightarrow>
                     (case (password, get_prop user ''password'') of
                        (JStr pw, JStr stored) \<Rightarrow>
                          if bcompare lib pw stored then
                            (Response 200
                               (JObj [(''message'', JStr ''Login successful''),
                                      (''user'',
                                       JObj [(''id'', get_prop user ''id''),
                                             (''user_type'', get_prop user ''user_type''),
                                             (''name'', get_prop user ''name''),
                                             (''email'', get_prop user ''email''),
                                             (''profile_picture'', get_prop user ''profile_picture'')])]),
                             e')
                          else (Response 401 (err_body ''Invalid email or password.''), e')
                      | _ \<Rightarrow> (Response 500 (err_body ''Database query error.''), e')))))"

section \<open>Deleting an institution (lines 259-275)\<close>

definition delete_institution :: "request \<Rightarrow> env \<Rightarrow> outcome \<times> env" where
  "delete_institution req e =
     (let institutionId = get_prop (params req) ''id'' in
      case query (DeleteWhere Institutions ''id'') [institutionId] e of
        (Inr result, e') \<Rightarrow>
          if affectedRows result > 0 then
            (Response 200 (msg_body ''Institution deleted successfully.''), e')
          else (Response 404 (err_body ''Institution not found.''), e')
      | (Inl err, e') \<Rightarrow>
          (Response 500 (err_body ''Database error during deleting institution.''), e'))"

section \<open>Submitting an application (lines 279-348 and 389-486)\<close>

text \<open>
  \<^verbatim>\<open>grades.forEach((grade, index) => { subjects[index] = grade.subject || '';
  gradesValues[index] = grade.grade || ''; })\<close> over the elements of an array, from the
  index given: the pair of arrays is threaded through, and a \<^verbatim>\<open>grade\<close> that is null
  throws at the first read.
\<close>

fun forEach_grade ::
  "jsval list \<Rightarrow> nat \<Rightarrow> jsval list \<times> jsval list \<Rightarrow> js_error + (jsval list \<times> jsval list)" where
  "forEach_grade [] index acc = Inr acc"
| "forEach_grade (grade # rest) index (subjects, gradesValues) =
     (case read_member grade ''subject'' of
        Inl err \<Rightarrow> Inl err
      | Inr sv \<Rightarrow>
          (case read_member grade ''grade'' of
             Inl err \<Rightarrow> Inl err
           | Inr gv \<Rightarrow>
               forEach_grade rest (Suc index)
                 (js_set subjects index (js_or sv (JStr [])),
                  js_set gradesValues index (js_or gv (JStr [])))))"

text \<open>
  Lines 301-306 and 405-410: both arrays start as \<^verbatim>\<open>new Array(8).fill('')\<close>. Calling
  \<^verbatim>\<open>grades.forEach\<close> throws a TypeError unless \<^verbatim>\<open>grades\<close> is an array (undefined and null
  have no properties, and no other JSON value has a function \<^verbatim>\<open>forEach\<close>).
\<close>

definition fill_grades :: "jsval \<Rightarrow> js_error + (jsval list \<times> jsval list)" where
  "fill_grades grades =
     (case grades of
        JArr gs \<Rightarrow> forEach_grade gs 0 (replicate 8 (JStr []), replicate 8 (JStr []))
      | _ \<Rightarrow> Inl TypeError)"

text \<open>The column list of the statement of lines 309-326 and 413-429, and its twenty \<^verbatim>\<open>?\<close>.\<close>

definition application_columns :: "string list" where
  "application_columns =
     [''student_name'', ''phone_number'', ''student_id'', ''university'', ''course_id'',
      ''faculty'', ''major_subject'',
      ''subject1'', ''grade1'', ''subject2'', ''grade2'', ''subject3'', ''grade3'',
      ''subject4'', ''grade4'', ''subject5'', ''grade5'', ''subject6'', ''grade6'',
      ''subject7'', ''grade7'', ''subject8'', ''grade8'']"

definition sqlQuery :: stmt where
  "sqlQuery = Insert Applications application_columns (replicate 20 Placeholder)"

text \<open>The \<^verbatim>\<open>params\<close> array of lines 329-339 and 432-442.\<close>

definition apply_params :: "(string \<times> jsval) list \<Rightarrow> jsval list \<Rightarrow> jsval list \<Rightarrow> jsval list" where
  "apply_params b subjects gradesValues =
     [get_prop b ''student_name'', get_prop b ''phone_number'', get_prop b ''student_id'',
      get_prop b ''university'', get_prop b ''course_id'', get_prop b ''faculty'',
      get_prop b ''major_subject''] @ subjects @ gradesValues"

text \<open>
  \<^verbatim>\<open>POST /applications\<close> (lines 279-348). After the validation and the \<^verbatim>\<open>forEach\<close> the
  \<^verbatim>\<open>try\<close> block evaluates \<^verbatim>\<open>query(testQuery, testData)\<close>. \<^verbatim>\<open>testQuery\<close> is declared
  nowhere in the module, so evaluating the arguments throws a ReferenceError before
  \<^verbatim>\<open>query\<close> is called: \<open>testQuery\<close> below is that evaluation. The \<^verbatim>\<open>catch\<close> answers 500.
\<close>

definition testData :: "jsval list" where
  "testData =
     map JStr
       [''John Doe'', ''123456789'', ''ST001'', ''University X'', ''Course Y'',
        ''Faculty Z'', ''Science'', ''Math'', ''A'', ''English'', ''B'', [], [], [], [],
        [], [], [], [], [], []]"

definition testQuery :: "js_error + stmt" where
  "testQuery = Inl ReferenceError"

definition post_applications :: "request \<Rightarrow> env \<Rightarrow> outcome \<times> env" where
  "post_applications req e =
     (let b = body req; grades = get_prop b ''grades'' in
      if falsy (get_prop b ''student_name'') \<or> falsy (get_prop b ''phone_number'')
         \<or> falsy (get_prop b ''student_id'') \<or> falsy (get_prop b ''university'')
         \<or> falsy (get_prop b ''course_id'') \<or> falsy (get_prop b ''faculty'')
         \<or> falsy (get_prop b ''major_subject'') \<or> falsy grades then
        (Response 400 (err_body ''All fields are required.''), e)
      else
        (case fill_grades grades of
           Inl err \<Rightarrow> (Escaped err, e)
         | Inr (subjects, gradesValues) \<Rightarrow>
             (case testQuery of
                Inl err \<Rightarrow>
                  (Response 500 (err_body ''Database error during application submission.''), e)
              | Inr s \<Rightarrow>
                  (case query s testData e of
                     (Inr result, e') \<Rightarrow>
                       (Response 201
                          (JObj [(''message'', JStr ''Test insert successful''),
                                 (''id'', insertId result)]), e')
                   | (Inl err, e') \<Rightarrow>
                       (Response 500 (err_body ''Database error during application submission.''), e')))))"

text \<open>\<^verbatim>\<open>POST /apply\<close>, the handler bound first (lines 389-451).\<close>

definition post_apply_first :: "request \<Rightarrow> env \<Rightarrow> outcome \<times> env" where
  "post_apply_first req e =
     (let b = body req; grades = get_prop b ''grades'' in
      if falsy (get_prop b ''student_name'') \<or> falsy (get_prop b ''phone_number'')
         \<or> falsy (get_prop b ''student_id'') \<or> falsy (get_prop b ''university'')
         \<or> falsy (get_prop b ''course_id'') \<or> falsy (get_prop b ''faculty'')
         \<or> falsy (get_prop b ''major_subject'') then
        (Response 400 (err_body ''All fields are required.''), e)
      else
        (case fill_grades grades of
           Inl err \<Rightarrow> (Escaped err, e)
         | Inr (subjects, gradesValues) \<Rightarrow>
             (case query sqlQuery (apply_params b subjects gradesValues) e of
                (Inr result, e') \<Rightarrow>
                  (Response 201
                     (JObj [(''message'', JStr ''Application submitted successfully''),
                            (''application_id'', insertId result)]), e')
              | (Inl err, e') \<Rightarrow>
                  (Response 500 (err_body ''Database error during application submission.''), e'))))"

text \<open>\<^verbatim>\<open>POST /apply\<close>, the handler bound second (lines 455-486).\<close>

definition sqlInsertApplication :: stmt where
  "sqlInsertApplication =
     Insert Applications
       [''student_name'', ''phone_number'', ''student_id'', ''university'', ''course_id'',
        ''faculty'', ''major_subject'']
       (replicate 7 Placeholder)"

definition post_apply_second :: "request \<Rightarrow> env \<Rightarrow> outcome \<times> env" where
  "post_apply_second req e =
     (let b = body req in
      if falsy (get_prop b ''student_name'') \<or> falsy (get_prop b ''student_id'')
         \<or> falsy (get_prop b ''course_id'') then
        (Response 400 (err_body ''Required fields are missing''), e)
      else
        (case query sqlInsertApplication (apply_params b [] []) e of
           (Inr result, e') \<Rightarrow>
             (Response 201
                (JObj [(''message'', JStr ''Application successfully submitted''),
                       (''application_id'', insertId result)]), e')
         | (Inl err, e') \<Rightarrow> (Response 500 (err_body ''Error processing the application''), e')))"

section \<open>Publishing admissions (lines 488-517)\<close>

definition insertAdmission :: stmt where
  "insertAdmission =
     Insert Admissions
       [''student_id'', ''course_id'', ''institution_id'', ''faculty_id'', ''status'']
       [Placeholder, Placeholder, Placeholder, Placeholder, Literal (JStr ''admitted'')]"

text \<open>
  The \<^verbatim>\<open>for (let appId of application_ids)\<close> loop inside the \<^verbatim>\<open>try\<close>: the first
  statement that fails ends the loop with its error; what earlier iterations wrote stays.
\<close>

fun publish_loop :: "jsval list \<Rightarrow> env \<Rightarrow> (js_error + unit) \<times> env" where
  "publish_loop [] e = (Inr (), e)"
| "publish_loop (appId # rest) e =
     (case query (SelectWhere Applications ''id'') [appId] e of
        (Inl err, e1) \<Rightarrow> (Inl err, e1)
      | (Inr applicationResult, e1) \<Rightarrow>
          (case result_rows applicationResult of
             [] \<Rightarrow> publish_loop rest e1
           | app # others \<Rightarrow>
               (case query insertAdmission
                       [get_prop app ''student_id'', get_prop app ''course_id'', JNull, JNull] e1 of
                  (Inl err, e2) \<Rightarrow> (Inl err, e2)
                | (Inr ok, e2) \<Rightarrow> publish_loop rest e2)))"

definition post_publish_admissions :: "request \<Rightarrow> env \<Rightarrow> outcome \<times> env" where
  "post_publish_admissions req e =
     (case get_prop (body req) ''application_ids'' of
        JArr application_ids \<Rightarrow>
          if application_ids = [] then
            (Response 400 (err_body ''No application IDs provided to process.''), e)
          else
            (case publish_loop application_ids e of
               (Inr u, e') \<Rightarrow> (Response 200 (msg_body ''Admissions successfully published.''), e')
             | (Inl err, e') \<Rightarrow> (Response 500 (err_body ''Error processing admissions.''), e'))
      | other \<Rightarrow> (Response 400 (err_body ''No application IDs provided to process.''), e))"

section \<open>Routing (the order of the \<^verbatim>\<open>app.post\<close> and \<^verbatim>\<open>app.delete\<close> calls)\<close>

text \<open>
  Express keeps the routes in the order in which \<^verbatim>\<open>app.METHOD(path, handler)\<close> was
  called and hands a request to the first route whose method and path match. A later
  route for the same method and path runs only if the earlier handler calls \<^verbatim>\<open>next()\<close>;
  the handlers of this file take \<^verbatim>\<open>(req, res)\<close> only and never do. The path parameters
  of the match become \<^verbatim>\<open>req.params\<close>.
\<close>

datatype verb = GET | POST | PUT | DELETE

datatype seg = Lit string | Par string

fun match_path :: "seg list \<Rightarrow> string list \<Rightarrow> (string \<times> jsval) list option" where
  "match_path [] [] = Some []"
| "match_path (Lit s # ps) (x # xs) = (if s = x then match_path ps xs else None)"
| "match_path (Par k # ps) (x # xs) = map_option ((#) (k, JStr x)) (match_path ps xs)"
| "match_path ps xs = None"

type_synonym handler = "request \<Rightarrow> env \<Rightarrow> outcome \<times> env"

text \<open>The routes modelled here, in the order of the source.\<close>

definition routes :: "bcrypt \<Rightarrow> (verb \<times> seg list \<times> handler) list" where
  "routes lib =
     [(POST, [Lit ''register''], post_register lib),
      (POST, [Lit ''login''], post_login lib),
      (DELETE, [Lit ''institutions'', Par ''id''], delete_institution),
      (POST, [Lit ''applications''], post_applications),
      (POST, [Lit ''apply''], post_apply_first),
      (POST, [Lit ''apply''], post_apply_second),
      (POST, [Lit ''publish-admissions''], post_publish_admissions)]"

text \<open>\<open>None\<close>: no route matches (Express answers 404 itself).\<close>

fun dispatch ::
  "(verb \<times> seg list \<times> handler) list \<Rightarrow> verb \<Rightarrow> string list \<Rightarrow> request \<Rightarrow> env \<Rightarrow> (outcome \<times> env) option" where
  "dispatch [] v path req e = None"
| "dispatch ((v', pat, h) # rs) v path req e =
     (if v' = v then
        (case match_path pat path of
           Some ps \<Rightarrow> Some (h (req\<lparr>params := ps\<rparr>) e)
         | None \<Rightarrow> dispatch rs v path req e)
      else dispatch rs v path req e)"

section \<open>What the admission loop is expected to write\<close>

text \<open>
  The applications an identifier selects, the cells of the admission made from an
  application, and the admissions due for a list of identifiers: one for each identifier
  that selects an application (from the first row selected), none for the others.
  \<open>number_rows n\<close> gives consecutive ids from \<open>n\<close> to a list of new rows.
\<close>

definition matching :: "env \<Rightarrow> jsval \<Rightarrow> row list" where
  "matching e appId =
     filter (\<lambda>r. sql_eq e (get_prop r ''id'') (sql_escape appId)) (rows (applications e))"

definition admission_cells :: "row \<Rightarrow> row" where
  "admission_cells app =
     [(''student_id'', sql_escape (get_prop app ''student_id'')),
      (''course_id'', sql_escape (get_prop app ''course_id'')),
      (''institution_id'', JNull),
      (''faculty_id'', JNull),
      (''status'', JStr ''admitted'')]"

fun admitted :: "env \<Rightarrow> jsval list \<Rightarrow> row list" where
  "admitted e [] = []"
| "admitted e (appId # rest) =
     (case matching e appId of
        [] \<Rightarrow> admitted e rest
      | app # others \<Rightarrow> admission_cells app # admitted e rest)"

fun number_rows :: "nat \<Rightarrow> row list \<Rightarrow> row list" where
  "number_rows n [] = []"
| "number_rows n (c # cs) = ((''id'', JNum (int n)) # c) # number_rows (Suc n) cs"

definition grow :: "table \<Rightarrow> row list \<Rightarrow> table" where
  "grow tb new =
     tb\<lparr>rows := rows tb @ number_rows (next_id tb) new, next_id := next_id tb + length new\<rparr>"

section \<open>Sample data\<close>

text \<open>
  A comparison for the sample environment: \<^verbatim>\<open>NULL\<close> equals nothing, a number equals its
  decimal text, and otherwise equal values are equal.
\<close>

fun sample_eq :: "jsval \<Rightarrow> jsval \<Rightarrow> bool" where
  "sample_eq JNull b = False"
| "sample_eq a JNull = False"
| "sample_eq (JNum n) (JStr s) = (0 \<le> n \<and> s = digits (nat n))"
| "sample_eq a b = (a = b)"

text \<open>
  A stand-in for the key derivation of \<^verbatim>\<open>bcrypt\<close>, to run the handlers on: the digest is
  the key as it is. It is not bcrypt's; only the 72 bytes that reach it are.
\<close>

definition sample_bcrypt :: bcrypt where
  "sample_bcrypt = \<lparr>digest = (\<lambda>cost s key. key)\<rparr>"




definition sample_env :: env where
  "sample_env =
     \<lparr>users = \<lparr>rows = [], next_id = 1\<rparr>,
      institutions =
        \<lparr>rows = [[(''id'', JNum 1), (''name'', JStr ''NUL''), (''logo'', JStr ''uploads/1_nul.png'')]],
         next_id = 2\<rparr>,
      applications =
        \<lparr>rows =
           [[(''id'', JNum 1), (''student_name'', JStr ''Thabo''), (''student_id'', JStr ''ST001''),
             (''course_id'', JNum 7)],
            [(''id'', JNum 2), (''student_name'', JStr ''Lineo''), (''student_id'', JStr ''ST002''),
             (''course_id'', JNum 9)]],
         next_id = 3\<rparr>,
      admissions = \<lparr>rows = [], next_id = 1\<rparr>,
      disk = [],
      faults = [],
      sql_eq = sample_eq\<rparr>"

definition json_request :: "(string \<times> jsval) list \<Rightarrow> request" where
  "json_request b = \<lparr>body = b, params = [], part = None, now = 0, salt = []\<rparr>"

definition pair :: "string \<Rightarrow> string \<Rightarrow> jsval" where
  "pair s g = JObj [(''subject'', JStr s), (''grade'', JStr g)]"

definition scalar_fields :: "(string \<times> jsval) list" where
  "scalar_fields =
     [(''student_name'', JStr ''Thabo''), (''phone_number'', JStr ''5550100''),
      (''student_id'', JStr ''ST001''), (''university'', JStr ''NUL''),
      (''course_id'', JNum 7), (''faculty'', JStr ''Science''),
      (''major_subject'', JStr ''Physics'')]"



definition png :: upload_part where
  "png = \<lparr>mimetype = ''image/png'', originalname = ''a.png''\<rparr>"


definition nine_pairs :: "jsval list" where
  "nine_pairs =
     [pair ''S1'' ''G1'', pair ''S2'' ''G2'', pair ''S3'' ''G3'', pair ''S4'' ''G4'',
      pair ''S5'' ''G5'', pair ''S6'' ''G6'', pair ''S7'' ''G7'', pair ''S8'' ''G8'',
      pair ''S9'' ''G9'']"

section \<open>Facts about the database model\<close>

lemma bind_placeholders:
  "n \<le> length ps \<Longrightarrow> bind (replicate n Placeholder) ps = Some (map sql_escape (take n ps))"
proof (induction n arbitrary: ps)
  case 0
  then show ?case by simp
next
  case (Suc n)
  then show ?case by (cases ps) simp_all
qed

lemma bind_too_few:
  "length ps < n \<Longrightarrow> bind (replicate n Placeholder) ps = None"
proof (induction n arbitrary: ps)
  case 0
  then show ?case by simp
next
  case (Suc n)
  then show ?case by (cases ps) simp_all
qed


lemma select_ok:
  assumes "query (SelectWhere Applications ''id'') [appId] e = (Inr r, e1)"
  shows "r = Rows (matching e appId) \<and> e1 = e\<lparr>faults := tl (faults e)\<rparr>"
proof (cases "faults e")
  case Nil
  with assms show ?thesis by (auto simp: query_def matching_def)
next
  case (Cons f fs)
  with assms show ?thesis by (auto simp: query_def matching_def split: if_splits)
qed

lemma insert_ok:
  assumes "query insertAdmission [s, c, JNull, JNull] e = (Inr r, e2)"
  shows "e2 = e\<lparr>admissions :=
                  grow (admissions e)
                    [[(''student_id'', sql_escape s), (''course_id'', sql_escape c),
                      (''institution_id'', JNull), (''faculty_id'', JNull),
                      (''status'', JStr ''admitted'')]],
                faults := tl (faults e)\<rparr>"
proof (cases "faults e")
  case Nil
  with assms show ?thesis by (auto simp: query_def insertAdmission_def grow_def Let_def)
next
  case (Cons f fs)
  with assms show ?thesis
    by (auto simp: query_def insertAdmission_def grow_def Let_def split: if_splits)
qed

lemma query_failed:
  assumes "query s ps e = (Inl err, e')"
  shows "e' = e\<lparr>faults := tl (faults e)\<rparr>"
proof (cases "faults e")
  case Nil
  with assms show ?thesis
    by (cases s) (auto simp: query_def Let_def split: option.splits if_splits list.splits)
next
  case (Cons f fs)
  with assms show ?thesis
    by (cases s) (auto simp: query_def Let_def split: option.splits if_splits list.splits)
qed

lemma matching_cong:
  "applications e' = applications e \<Longrightarrow> sql_eq e' = sql_eq e \<Longrightarrow> matching e' i = matching e i"
  by (simp add: matching_def)

lemma admitted_cong:
  "applications e' = applications e \<Longrightarrow> sql_eq e' = sql_eq e \<Longrightarrow> admitted e' ids = admitted e ids"
  by (induction ids) (auto simp: matching_cong[of e' e] split: list.splits)

lemma grow_grow: "grow (grow tb [c]) cs = grow tb (c # cs)"
  by (simp add: grow_def)

lemma grow_Nil: "grow tb [] = tb"
  by (simp add: grow_def)

lemma length_number_rows: "length (number_rows n cs) = length cs"
  by (induction cs arbitrary: n) simp_all

section \<open>Facts about the admission loop\<close>

text \<open>
  When the loop runs to its end, the environment differs from the one it started in only
  by the admissions due for the identifiers, appended in order, and by the fault flags
  used up.
\<close>

lemma publish_loop_ok:
  "publish_loop ids e = (Inr u, e') \<Longrightarrow>
   e' = e\<lparr>admissions := grow (admissions e) (admitted e ids), faults := faults e'\<rparr>"
proof (induction ids arbitrary: e)
  case Nil
  then show ?case by (auto simp: grow_Nil)
next
  case (Cons appId rest)
  obtain r1 e1 where q1: "query (SelectWhere Applications ''id'') [appId] e = (r1, e1)"
    by (cases "query (SelectWhere Applications ''id'') [appId] e")
  show ?case
  proof (cases r1)
    case (Inl err)
    with Cons.prems q1 show ?thesis by simp
  next
    case (Inr res)
    from select_ok[of appId e res e1] q1 Inr
    have res: "res = Rows (matching e appId)" and e1: "e1 = e\<lparr>faults := tl (faults e)\<rparr>"
      by simp_all
    show ?thesis
    proof (cases "matching e appId")
      case Nil
      with Cons.prems q1 Inr res have loop: "publish_loop rest e1 = (Inr u, e')" by simp
      have same: "admitted e1 rest = admitted e rest"
        by (rule admitted_cong) (simp_all add: e1)
      from Cons.IH[OF loop] Nil show ?thesis
        by (simp add: same) (simp add: e1)
    next
      case (Cons app others)
      obtain r2 e2 where q2:
        "query insertAdmission [get_prop app ''student_id'', get_prop app ''course_id'', JNull, JNull] e1
           = (r2, e2)"
        by (cases "query insertAdmission [get_prop app ''student_id'', get_prop app ''course_id'', JNull, JNull] e1")
      show ?thesis
      proof (cases r2)
        case (Inl err)
        with Cons.prems Cons q1 \<open>r1 = Inr res\<close> res q2 show ?thesis by simp
      next
        case (Inr ok)
        with Cons.prems Cons q1 \<open>r1 = Inr res\<close> res q2
        have loop: "publish_loop rest e2 = (Inr u, e')" by simp
        from insert_ok[of _ _ e1 ok e2] q2 Inr
        have e2: "e2 = e1\<lparr>admissions := grow (admissions e1) [admission_cells app],
                            faults := tl (faults e1)\<rparr>"
          by (simp add: admission_cells_def)
        have same: "admitted e2 rest = admitted e rest"
          by (rule admitted_cong) (simp_all add: e2 e1)
        from Cons.IH[OF loop] Cons show ?thesis
          by (simp add: same) (simp add: e2 e1 grow_grow)
      qed
    qed
  qed
qed

text \<open>With no fault pending every statement of the loop is carried out.\<close>

lemma publish_loop_no_faults:
  "faults e = [] \<Longrightarrow> \<exists>e'. publish_loop ids e = (Inr (), e') \<and> faults e' = []"
proof (induction ids arbitrary: e)
  case Nil
  then show ?case by simp
next
  case (Cons appId rest)
  then show ?case
    by (auto simp: query_def insertAdmission_def Let_def split: list.splits)
qed

lemma publish_loop_append:
  "publish_loop (pre @ rest) e =
     (case publish_loop pre e of
        (Inl err, e1) \<Rightarrow> (Inl err, e1)
      | (Inr u, e1) \<Rightarrow> publish_loop rest e1)"
  by (induction pre arbitrary: e) (auto split: prod.splits sum.splits list.splits)

lemma length_admitted:
  "length (admitted e ids) = length (filter (\<lambda>i. matching e i \<noteq> []) ids)"
  by (induction ids) (auto split: list.splits)

section \<open>Facts about the grades loop\<close>

lemma forEach_grade_err: "forEach_grade gs i acc = Inl err \<Longrightarrow> err = TypeError"
proof (induction gs i acc rule: forEach_grade.induct)
  case (1 index acc)
  then show ?case by simp
next
  case (2 grade rest index subjects gradesValues)
  then show ?case
    by (cases grade) (auto split: sum.splits)
qed

lemma fill_grades_err: "fill_grades g = Inl err \<Longrightarrow> err = TypeError"
  by (cases g) (auto simp: fill_grades_def dest: forEach_grade_err)

lemma fill9: "fill_grades (JArr nine_pairs)
     = Inr (map JStr [''S1'', ''S2'', ''S3'', ''S4'', ''S5'', ''S6'', ''S7'', ''S8'', ''S9''],
            map JStr [''G1'', ''G2'', ''G3'', ''G4'', ''G5'', ''G6'', ''G7'', ''G8'', ''G9''])"
  by (simp add: fill_grades_def nine_pairs_def pair_def get_prop_def js_set_def js_or_def eval_nat_numeral)

lemma fill8: "fill_grades (JArr (take 8 nine_pairs))
     = Inr (map JStr [''S1'', ''S2'', ''S3'', ''S4'', ''S5'', ''S6'', ''S7'', ''S8''],
            map JStr [''G1'', ''G2'', ''G3'', ''G4'', ''G5'', ''G6'', ''G7'', ''G8''])"
  by (simp add: fill_grades_def nine_pairs_def pair_def get_prop_def js_set_def js_or_def eval_nat_numeral)

lemma fill2: "fill_grades (JArr [pair ''Math'' ''A'', pair ''English'' ''B''])
     = Inr (map JStr [''Math'', ''English'', [], [], [], [], [], []],
            map JStr [''A'', ''B'', [], [], [], [], [], []])"
  by (simp add: fill_grades_def pair_def get_prop_def js_set_def js_or_def eval_nat_numeral)

lemma apply_insert_refused:
  "query sqlQuery ps e = (r, e') \<Longrightarrow> r = Inl DatabaseError"
proof (cases "length ps < 20")
  case True
  assume "query sqlQuery ps e = (r, e')"
  with True show ?thesis
    by (auto simp: query_def sqlQuery_def bind_too_few split: list.splits if_splits)
next
  case False
  assume "query sqlQuery ps e = (r, e')"
  with False show ?thesis
    by (auto simp: query_def sqlQuery_def bind_placeholders application_columns_def
        split: list.splits if_splits)
qed

lemma post_apply_first_never_201:
  "fst (post_apply_first req e) \<noteq> Response 201 b"
  by (auto simp: post_apply_first_def Let_def split: sum.splits prod.splits dest: apply_insert_refused)

section \<open>Facts about the hash string\<close>






section \<open>Facts about the upload filter\<close>

text \<open>The three image types pass the filter, and a type with none of the four words does not.\<close>

lemma fileFilter_images:
  "fileFilter \<lparr>mimetype = ''image/jpeg'', originalname = n\<rparr> = Inr True"
  "fileFilter \<lparr>mimetype = ''image/png'', originalname = n\<rparr> = Inr True"
  "fileFilter \<lparr>mimetype = ''image/gif'', originalname = n\<rparr> = Inr True"
  "fileFilter \<lparr>mimetype = ''application/pdf'', originalname = n\<rparr> = Inl FileTypeError"
  by (simp_all add: fileFilter_def filetypes_test_def)

section \<open>Facts about registration\<close>



section \<open>Claims\<close>

text \<open>
  C4 (the code departs from the claim): the upload filter accepts a file whose declared
  MIME type is none of image/jpeg, image/png, image/gif, because the pattern is matched
  anywhere in the type. A part declared \<^verbatim>\<open>text/x-png-notes\<close> passes the filter, is written
  under \<^verbatim>\<open>uploads/\<close>, and its path is stored in the new user's row.
\<close>

theorem fileFilter_accepts_non_image:
  "fileFilter \<lparr>mimetype = ''text/x-png-notes'', originalname = ''notes.txt''\<rparr> = Inr True
   \<and> post_register sample_bcrypt
         \<lparr>body = [(''name'', JStr ''A''), (''email'', JStr ''a@x.com''), (''password'', JStr ''pw''),
                  (''user_type'', JStr ''student'')],
          params = [],
          part = Some \<lparr>mimetype = ''text/x-png-notes'', originalname = ''notes.txt''\<rparr>,
          now = 5, salt = ''abcd''\<rparr>
         sample_env
       = (Response 201 (msg_body ''User registered successfully.''),
          sample_env
            \<lparr>users :=
               \<lparr>rows = [[(''id'', JNum 1), (''name'', JStr ''A''), (''email'', JStr ''a@x.com''),
                         (''password'', JStr ''$2b$10$abcdpw''), (''user_type'', JStr ''student''),
                         (''profile_picture'', JStr ''uploads/5_notes.txt'')]],
                next_id = 2\<rparr>,
             disk := [''uploads/5_notes.txt'']\<rparr>)"
  by (simp add: fileFilter_def filetypes_test_def post_register_def upload_single_def
      sample_bcrypt_def sample_env_def get_prop_def query_def msg_body_def Let_def
      bind_placeholders digits.simps bhash_def cost_text_def)

text \<open>
  C7 (the code departs from the claim): a \<^verbatim>\<open>POST /apply\<close> request that carries the seven
  scalar fields and no \<^verbatim>\<open>grades\<close> gets none of the responses 201, 400, 500 from the
  handler bound first: \<^verbatim>\<open>grades.forEach\<close> throws a TypeError outside the \<^verbatim>\<open>try\<close> block.
\<close>

theorem post_apply_first_escapes:
  "post_apply_first (json_request scalar_fields) sample_env = (Escaped TypeError, sample_env)"
  by (simp add: post_apply_first_def json_request_def scalar_fields_def get_prop_def fill_grades_def)

text \<open>
  C10: a \<^verbatim>\<open>POST /applications\<close> request that passes the validation never gets 201 and
  never changes the database: it is answered 500 (the \<^verbatim>\<open>try\<close> block throws on
  \<^verbatim>\<open>testQuery\<close> before any statement is sent), unless the \<^verbatim>\<open>forEach\<close> over \<^verbatim>\<open>grades\<close>
  has thrown a TypeError before that; either way the environment is the one before.
\<close>

theorem post_applications_never_inserts:
  assumes "\<not> falsy (get_prop (body req) ''student_name'')"
    and "\<not> falsy (get_prop (body req) ''phone_number'')"
    and "\<not> falsy (get_prop (body req) ''student_id'')"
    and "\<not> falsy (get_prop (body req) ''university'')"
    and "\<not> falsy (get_prop (body req) ''course_id'')"
    and "\<not> falsy (get_prop (body req) ''faculty'')"
    and "\<not> falsy (get_prop (body req) ''major_subject'')"
    and "\<not> falsy (get_prop (body req) ''grades'')"
  shows "post_applications req e
           = (Response 500 (err_body ''Database error during application submission.''), e)
         \<or> post_applications req e = (Escaped TypeError, e)"
  using assms
  by (auto simp: post_applications_def Let_def testQuery_def split: sum.splits dest: fill_grades_err)

theorem post_applications_never_inserts_witness:
  "post_applications (json_request (scalar_fields @ [(''grades'', JArr [pair ''Math'' ''A''])])) sample_env
     = (Response 500 (err_body ''Database error during application submission.''), sample_env)"
proof -
  let ?req = "json_request (scalar_fields @ [(''grades'', JArr [pair ''Math'' ''A''])])"
  have "post_applications ?req sample_env
          = (Response 500 (err_body ''Database error during application submission.''), sample_env)
        \<or> post_applications ?req sample_env = (Escaped TypeError, sample_env)"
    by (rule post_applications_never_inserts)
       (simp_all add: json_request_def scalar_fields_def get_prop_def)
  moreover have "fill_grades (JArr [pair ''Math'' ''A'']) \<noteq> Inl TypeError"
    by (simp add: fill_grades_def pair_def get_prop_def js_set_def js_or_def)
  then have "post_applications ?req sample_env \<noteq> (Escaped TypeError, sample_env)"
    by (auto simp: post_applications_def json_request_def scalar_fields_def get_prop_def
        testQuery_def split: sum.splits)
  ultimately show ?thesis by blast
qed

text \<open>
  C9: when no statement fails and the id selects at least one institution, the first
  \<^verbatim>\<open>DELETE /institutions/:id\<close> answers 200 and removes rows, and the second one on the same id
  answers 404 and leaves the environment as it found it.
\<close>

theorem delete_institution_twice:
  assumes "faults e = []"
    and "filter (\<lambda>r. sql_eq e (get_prop r ''id'') (sql_escape (get_prop (params req) ''id'')))
           (rows (institutions e)) \<noteq> []"
    and "scalar (get_prop (params req) ''id'')"
  shows "\<exists>e1. delete_institution req e
                = (Response 200 (msg_body ''Institution deleted successfully.''), e1)
          \<and> length (rows (institutions e1)) < length (rows (institutions e))
          \<and> delete_institution req e1 = (Response 404 (err_body ''Institution not found.''), e1)"
proof -
  let ?P = "\<lambda>r. sql_eq e (get_prop r ''id'') (sql_escape (get_prop (params req) ''id''))"
  have "length (filter ?P (rows (institutions e))) + length (filter (\<lambda>r. \<not> ?P r) (rows (institutions e)))
          = length (rows (institutions e))"
    by (rule sum_length_filter_compl)
  moreover from assms(2) have "0 < length (filter ?P (rows (institutions e)))"
    by simp
  ultimately have "length (filter (\<lambda>r. \<not> ?P r) (rows (institutions e))) < length (rows (institutions e))"
    by linarith
  with assms(1,2) show ?thesis
    by (simp add: delete_institution_def query_def Let_def)
qed

theorem delete_institution_twice_witness:
  "\<exists>e1. delete_institution (json_request []\<lparr>params := [(''id'', JStr ''1'')]\<rparr>) sample_env
           = (Response 200 (msg_body ''Institution deleted successfully.''), e1)
        \<and> length (rows (institutions e1)) < length (rows (institutions sample_env))
        \<and> delete_institution (json_request []\<lparr>params := [(''id'', JStr ''1'')]\<rparr>) e1
           = (Response 404 (err_body ''Institution not found.''), e1)"
  by (rule delete_institution_twice)
     (simp_all add: sample_env_def json_request_def get_prop_def digits.simps)

text \<open>
  C1: when no statement fails, \<^verbatim>\<open>POST /publish-admissions\<close> with a non-empty array of
  identifiers answers 200 and leaves the environment as it was but for the admissions
  table, to which it has appended, in the order of the list, one row for each identifier
  that selects an application (the application's \<^verbatim>\<open>student_id\<close> and \<^verbatim>\<open>course_id\<close>, \<^verbatim>\<open>NULL\<close>
  for \<^verbatim>\<open>institution_id\<close> and \<^verbatim>\<open>faculty_id\<close>, status \<^verbatim>\<open>admitted\<close>) and nothing for an
  identifier that selects none.
\<close>

theorem publish_admissions_skips_missing:
  assumes "faults e = []"
    and "get_prop (body req) ''application_ids'' = JArr ids"
    and "ids \<noteq> []"
    and "list_all scalar ids"
  shows "post_publish_admissions req e
           = (Response 200 (msg_body ''Admissions successfully published.''),
              e\<lparr>admissions := grow (admissions e) (admitted e ids)\<rparr>)
         \<and> length (admitted e ids) = length (filter (\<lambda>i. matching e i \<noteq> []) ids)"
proof -
  from publish_loop_no_faults[OF assms(1), of ids]
  obtain e' where loop: "publish_loop ids e = (Inr (), e')" and nf: "faults e' = []"
    by blast
  from publish_loop_ok[OF loop] nf assms(1)
  have "e' = e\<lparr>admissions := grow (admissions e) (admitted e ids)\<rparr>"
    by simp
  with loop assms(2,3) show ?thesis
    by (simp add: post_publish_admissions_def length_admitted)
qed

text \<open>
  C1, on the sample data: identifier 1 selects an application and identifier 99 none; the
  answer is 200 and exactly one admission has been written.
\<close>

theorem publish_admissions_skips_missing_witness:
  "post_publish_admissions (json_request [(''application_ids'', JArr [JNum 1, JNum 99])]) sample_env
     = (Response 200 (msg_body ''Admissions successfully published.''),
        sample_env
          \<lparr>admissions :=
             \<lparr>rows = [[(''id'', JNum 1), (''student_id'', JStr ''ST001''), (''course_id'', JNum 7),
                       (''institution_id'', JNull), (''faculty_id'', JNull),
                       (''status'', JStr ''admitted'')]],
              next_id = 2\<rparr>\<rparr>)"
  using publish_admissions_skips_missing
          [of sample_env "json_request [(''application_ids'', JArr [JNum 1, JNum 99])]"
              "[JNum 1, JNum 99]"]
  by (simp add: sample_env_def json_request_def get_prop_def matching_def admission_cells_def
      grow_def)

text \<open>
  C6: when the loop has run through a first part of the list and the insert made for the
  next identifier fails, the answer is 500 and the admissions table holds what it held
  before the request followed by the rows of that first part: nothing is rolled back.
\<close>

theorem publish_admissions_not_atomic:
  assumes "get_prop (body req) ''application_ids'' = JArr (pre @ appId # post)"
    and "publish_loop pre e = (Inr (), e1)"
    and "query (SelectWhere Applications ''id'') [appId] e1 = (Inr (Rows (app # others)), e2)"
    and "query insertAdmission
           [get_prop app ''student_id'', get_prop app ''course_id'', JNull, JNull] e2
         = (Inl err, e3)"
    and "list_all scalar (pre @ [appId])"
  shows "post_publish_admissions req e = (Response 500 (err_body ''Error processing admissions.''), e3)
         \<and> rows (admissions e3)
             = rows (admissions e) @ number_rows (next_id (admissions e)) (admitted e pre)
         \<and> length (admitted e pre) = length (filter (\<lambda>i. matching e i \<noteq> []) pre)"
proof -
  have "publish_loop (pre @ appId # post) e = (Inl err, e3)"
    using assms(2,3,4) by (simp add: publish_loop_append)
  with assms(1) have resp:
    "post_publish_admissions req e = (Response 500 (err_body ''Error processing admissions.''), e3)"
    by (simp add: post_publish_admissions_def)
  from publish_loop_ok[OF assms(2)]
  have "admissions e1
          = admissions (e\<lparr>admissions := grow (admissions e) (admitted e pre), faults := faults e1\<rparr>)"
    by (rule arg_cong)
  then have "admissions e1 = grow (admissions e) (admitted e pre)"
    by simp
  moreover from select_ok[OF assms(3)] have "admissions e2 = admissions e1"
    by simp
  moreover from query_failed[OF assms(4)] have "admissions e3 = admissions e2"
    by simp
  ultimately have "rows (admissions e3)
      = rows (admissions e) @ number_rows (next_id (admissions e)) (admitted e pre)"
    by (simp add: grow_def)
  with resp show ?thesis
    by (simp add: length_admitted)
qed

text \<open>
  C6, on the sample data: the fourth statement of the request fails (the insert for the
  second identifier); the answer is 500 and the admission for the first identifier stays.
\<close>

theorem publish_admissions_not_atomic_witness:
  "post_publish_admissions (json_request [(''application_ids'', JArr [JNum 1, JNum 2])])
     (sample_env\<lparr>faults := [False, False, False, True]\<rparr>)
     = (Response 500 (err_body ''Error processing admissions.''),
        sample_env
          \<lparr>admissions :=
             \<lparr>rows = [[(''id'', JNum 1), (''student_id'', JStr ''ST001''), (''course_id'', JNum 7),
                       (''institution_id'', JNull), (''faculty_id'', JNull),
                       (''status'', JStr ''admitted'')]],
              next_id = 2\<rparr>\<rparr>)
   \<and> rows (admissions sample_env) = []"
proof -
  let ?req = "json_request [(''application_ids'', JArr [JNum 1, JNum 2])]"
  let ?adm = "\<lparr>rows = [[(''id'', JNum 1), (''student_id'', JStr ''ST001''), (''course_id'', JNum 7),
                       (''institution_id'', JNull), (''faculty_id'', JNull),
                       (''status'', JStr ''admitted'')]],
              next_id = 2\<rparr>"
  let ?app = "[(''id'', JNum 2), (''student_name'', JStr ''Lineo''), (''student_id'', JStr ''ST002''),
               (''course_id'', JNum 9)]"
  have ids: "get_prop (body ?req) ''application_ids'' = JArr ([JNum 1] @ JNum 2 # [])"
    by (simp add: json_request_def get_prop_def)
  have pre: "publish_loop [JNum 1] (sample_env\<lparr>faults := [False, False, False, True]\<rparr>)
               = (Inr (), sample_env\<lparr>admissions := ?adm, faults := [False, True]\<rparr>)"
    by (simp add: sample_env_def query_def insertAdmission_def get_prop_def Let_def)
  have sel: "query (SelectWhere Applications ''id'') [JNum 2]
               (sample_env\<lparr>admissions := ?adm, faults := [False, True]\<rparr>)
             = (Inr (Rows (?app # [])), sample_env\<lparr>admissions := ?adm, faults := [True]\<rparr>)"
    by (simp add: sample_env_def query_def get_prop_def)
  have ins: "query insertAdmission
               [get_prop ?app ''student_id'', get_prop ?app ''course_id'', JNull, JNull]
               (sample_env\<lparr>admissions := ?adm, faults := [True]\<rparr>)
             = (Inl DatabaseError, sample_env\<lparr>admissions := ?adm, faults := []\<rparr>)"
    by (simp add: query_def)
  have sc: "list_all scalar ([JNum 1] @ [JNum 2])"
    by simp
  from publish_admissions_not_atomic[OF ids pre sel ins sc]
  show ?thesis
    by (simp add: sample_env_def)
qed

text \<open>
  C3, as the code has it: a \<^verbatim>\<open>POST /apply\<close> request is always handled by the handler
  bound first (lines 389-451), and the handler bound second is dead: whatever handler
  stands in its place, no request is answered differently.
\<close>

theorem first_apply_handler_live:
  "dispatch (routes lib) POST [''apply''] req e = Some (post_apply_first (req\<lparr>params := []\<rparr>) e)
   \<and> dispatch ((routes lib)[5 := (POST, [Lit ''apply''], h)]) v path req e
       = dispatch (routes lib) v path req e"
  by (simp add: routes_def split: option.splits)

text \<open>
  C3 as stated fails: a request with \<^verbatim>\<open>student_name\<close>, \<^verbatim>\<open>student_id\<close> and \<^verbatim>\<open>course_id\<close>
  only is answered 400 by the endpoint, where the handler bound second would insert the
  application and answer 201.
\<close>

theorem second_apply_handler_counterexample:
  "dispatch (routes sample_bcrypt) POST [''apply'']
     (json_request [(''student_name'', JStr ''Thabo''), (''student_id'', JStr ''ST001''),
                    (''course_id'', JNum 7)]) sample_env
     = Some (Response 400 (err_body ''All fields are required.''), sample_env)
   \<and> fst (post_apply_second
            (json_request [(''student_name'', JStr ''Thabo''), (''student_id'', JStr ''ST001''),
                           (''course_id'', JNum 7)]) sample_env)
     = Response 201
         (JObj [(''message'', JStr ''Application successfully submitted''),
                (''application_id'', JNum 3)])"
  by (simp add: routes_def post_apply_first_def post_apply_second_def json_request_def get_prop_def
      sqlInsertApplication_def apply_params_def query_def sample_env_def Let_def bind_placeholders)




text \<open>
  C2 (the code departs from the claim): with nine pairs in \<^verbatim>\<open>grades\<close> both arrays grow to
  nine entries, so \<^verbatim>\<open>params\<close> carries nine subjects and nine grades, and the twenty
  \<^verbatim>\<open>?\<close> of the statement take the ninth subject where the first eight pairs alone would
  put the first grade.
\<close>

theorem grades_past_eight_not_dropped:
  "fill_grades (JArr nine_pairs)
     = Inr (map JStr [''S1'', ''S2'', ''S3'', ''S4'', ''S5'', ''S6'', ''S7'', ''S8'', ''S9''],
            map JStr [''G1'', ''G2'', ''G3'', ''G4'', ''G5'', ''G6'', ''G7'', ''G8'', ''G9''])
   \<and> fill_grades (JArr (take 8 nine_pairs))
     = Inr (map JStr [''S1'', ''S2'', ''S3'', ''S4'', ''S5'', ''S6'', ''S7'', ''S8''],
            map JStr [''G1'', ''G2'', ''G3'', ''G4'', ''G5'', ''G6'', ''G7'', ''G8''])
   \<and> bind (replicate 20 Placeholder)
         (apply_params scalar_fields
            (map JStr [''S1'', ''S2'', ''S3'', ''S4'', ''S5'', ''S6'', ''S7'', ''S8'', ''S9''])
            (map JStr [''G1'', ''G2'', ''G3'', ''G4'', ''G5'', ''G6'', ''G7'', ''G8'', ''G9'']))
     = Some (map snd scalar_fields
             @ map JStr [''S1'', ''S2'', ''S3'', ''S4'', ''S5'', ''S6'', ''S7'', ''S8'', ''S9'',
                         ''G1'', ''G2'', ''G3'', ''G4''])
   \<and> bind (replicate 20 Placeholder)
         (apply_params scalar_fields
            (map JStr [''S1'', ''S2'', ''S3'', ''S4'', ''S5'', ''S6'', ''S7'', ''S8''])
            (map JStr [''G1'', ''G2'', ''G3'', ''G4'', ''G5'', ''G6'', ''G7'', ''G8'']))
     = Some (map snd scalar_fields
             @ map JStr [''S1'', ''S2'', ''S3'', ''S4'', ''S5'', ''S6'', ''S7'', ''S8'',
                         ''G1'', ''G2'', ''G3'', ''G4'', ''G5''])"
  by (simp add: fill9 fill8 apply_params_def scalar_fields_def get_prop_def bind_placeholders)

text \<open>
  C8 (the code departs from the claim): the entries past the length of \<^verbatim>\<open>grades\<close> are
  empty strings, but \<^verbatim>\<open>params\<close> lists the eight subjects and then the eight grades while
  the columns alternate: with two pairs the column \<^verbatim>\<open>grade1\<close> is given the subject of
  the second pair and the grades go to \<^verbatim>\<open>subject5\<close> and \<^verbatim>\<open>grade5\<close>. The statement has
  twenty \<^verbatim>\<open>?\<close> for twenty-three columns, so the insert is refused and the answer is 500.
\<close>

theorem subjects_and_grades_misaligned:
  "fill_grades (JArr [pair ''Math'' ''A'', pair ''English'' ''B''])
     = Inr (map JStr [''Math'', ''English'', [], [], [], [], [], []],
            map JStr [''A'', ''B'', [], [], [], [], [], []])
   \<and> map_option (zip application_columns)
         (bind (replicate 20 Placeholder)
            (apply_params scalar_fields
               (map JStr [''Math'', ''English'', [], [], [], [], [], []])
               (map JStr [''A'', ''B'', [], [], [], [], [], []])))
     = Some (scalar_fields
             @ [(''subject1'', JStr ''Math''), (''grade1'', JStr ''English''),
                (''subject2'', JStr []), (''grade2'', JStr []),
                (''subject3'', JStr []), (''grade3'', JStr []),
                (''subject4'', JStr []), (''grade4'', JStr []),
                (''subject5'', JStr ''A''), (''grade5'', JStr ''B''),
                (''subject6'', JStr []), (''grade6'', JStr []),
                (''subject7'', JStr [])])
   \<and> post_apply_first
         (json_request (scalar_fields @ [(''grades'', JArr [pair ''Math'' ''A'', pair ''English'' ''B''])]))
         sample_env
     = (Response 500 (err_body ''Database error during application submission.''), sample_env)"
  by (simp add: fill2 apply_params_def scalar_fields_def get_prop_def bind_placeholders
      application_columns_def post_apply_first_def json_request_def sqlQuery_def query_def
      sample_env_def Let_def)

end
